theory Spec2Isabelle
  imports Main
begin

section \<open>Python values used by the Product service\<close>

text \<open>
  The service (\<^verbatim>\<open>service/models.py\<close>, \<^verbatim>\<open>service/__init__.py\<close>) is dynamically typed:
  an attribute of a Product and an entry of the dictionary given to \<^verbatim>\<open>deserialize\<close> hold
  any Python object. The values modelled here are the scalar ones: \<^verbatim>\<open>None\<close>, booleans,
  integers, strings, \<^verbatim>\<open>decimal.Decimal\<close> values and members of the enumeration
  \<^verbatim>\<open>Category\<close>. Floats, lists and dictionaries as values are outside the model.
  Strings are lists of 8-bit characters, so only ASCII text is covered.
\<close>

subsection \<open>The enumeration Category\<close>

datatype Category = UNKNOWN | CLOTHS | FOOD | HOUSEWARES | AUTOMOTIVE | TOOLS

text \<open>\<^verbatim>\<open>member.name\<close> and \<^verbatim>\<open>member.value\<close> of the enumeration.\<close>

fun Category_name :: "Category \<Rightarrow> string" where
  "Category_name UNKNOWN = ''UNKNOWN''"
| "Category_name CLOTHS = ''CLOTHS''"
| "Category_name FOOD = ''FOOD''"
| "Category_name HOUSEWARES = ''HOUSEWARES''"
| "Category_name AUTOMOTIVE = ''AUTOMOTIVE''"
| "Category_name TOOLS = ''TOOLS''"

fun Category_value :: "Category \<Rightarrow> int" where
  "Category_value UNKNOWN = 0"
| "Category_value CLOTHS = 1"
| "Category_value FOOD = 2"
| "Category_value HOUSEWARES = 3"
| "Category_value AUTOMOTIVE = 4"
| "Category_value TOOLS = 5"

definition Category_members :: "Category list" where
  "Category_members = [UNKNOWN, CLOTHS, FOOD, HOUSEWARES, AUTOMOTIVE, TOOLS]"

text \<open>The member of a given name, if there is one (the enumeration's \<^verbatim>\<open>_member_map_\<close>).\<close>

definition Category_member :: "string \<Rightarrow> Category option" where
  "Category_member s = find (\<lambda>c. Category_name c = s) Category_members"

subsection \<open>Decimal values\<close>

text \<open>
  A \<^verbatim>\<open>decimal.Decimal\<close> is a sign, a coefficient and an exponent, or an infinity, or a
  (quiet or signalling) NaN with a diagnostic payload. The coefficient is kept by Python
  as a digit string without leading zeros, that is, as a natural number; an empty payload
  is the payload 0.
\<close>

datatype dec =
    Fin bool nat int
  | Inf bool
  | NaN bool bool nat

subsection \<open>Digits\<close>

definition is_digit :: "char \<Rightarrow> bool" where
  "is_digit c = (48 \<le> (of_char c :: nat) \<and> (of_char c :: nat) \<le> 57)"

definition digit_val :: "char \<Rightarrow> nat" where
  "digit_val c = of_char c - 48"

definition digit_char :: "nat \<Rightarrow> char" where
  "digit_char n = char_of (48 + n)"

text \<open>\<^verbatim>\<open>int(s)\<close> on a string of ASCII digits (the empty string is not given to it).\<close>

definition nat_of_digits :: "string \<Rightarrow> nat" where
  "nat_of_digits ds = foldl (\<lambda>a c. 10 * a + digit_val c) 0 ds"

text \<open>\<^verbatim>\<open>str(n)\<close> for a natural number: its decimal digits, most significant first.\<close>

fun digits_of_nat :: "nat \<Rightarrow> string" where
  "digits_of_nat n =
     (if n < 10 then [digit_char n]
      else digits_of_nat (n div 10) @ [digit_char (n mod 10)])"

declare digits_of_nat.simps [simp del]

text \<open>\<^verbatim>\<open>str(i)\<close> for an integer, and the format \<^verbatim>\<open>"%+d" % i\<close>.\<close>

definition str_int :: "int \<Rightarrow> string" where
  "str_int i = (if i < 0 then CHR ''-'' # digits_of_nat (nat (- i)) else digits_of_nat (nat i))"

definition fmt_plus_d :: "int \<Rightarrow> string" where
  "fmt_plus_d i =
     (if i < 0 then CHR ''-'' # digits_of_nat (nat (- i)) else CHR ''+'' # digits_of_nat (nat i))"

subsection \<open>Printing a Decimal\<close>

text \<open>
  \<^verbatim>\<open>Decimal.__str__\<close>, the scientific string of the General Decimal Arithmetic
  specification, with the default context (\<^verbatim>\<open>capitals = 1\<close>):
  \<^verbatim>\<open>
  sign = ['', '-'][self._sign]
  if self._is_special:
      if self._exp == 'F': return sign + 'Infinity'
      elif self._exp == 'n': return sign + 'NaN' + self._int
      else: return sign + 'sNaN' + self._int
  leftdigits = self._exp + len(self._int)
  if self._exp <= 0 and leftdigits > -6: dotplace = leftdigits
  else: dotplace = 1
  if dotplace <= 0:
      intpart = '0'; fracpart = '.' + '0'*(-dotplace) + self._int
  elif dotplace >= len(self._int):
      intpart = self._int + '0'*(dotplace-len(self._int)); fracpart = ''
  else:
      intpart = self._int[:dotplace]; fracpart = '.' + self._int[dotplace:]
  if leftdigits == dotplace: exp = ''
  else: exp = 'E' + "%+d" % (leftdigits-dotplace)
  return sign + intpart + fracpart + exp
  \<close>
\<close>

definition sign_str :: "bool \<Rightarrow> string" where
  "sign_str s = (if s then ''-'' else '''')"

definition payload_str :: "nat \<Rightarrow> string" where
  "payload_str n = (if n = 0 then '''' else digits_of_nat n)"

definition str_fin :: "nat \<Rightarrow> int \<Rightarrow> string" where
  "str_fin c e =
     (let ds = digits_of_nat c;
          n = int (length ds);
          leftdigits = e + n;
          dotplace = (if e \<le> 0 \<and> leftdigits > - 6 then leftdigits else 1);
          intpart = (if dotplace \<le> 0 then ''0''
                     else if dotplace \<ge> n then ds @ replicate (nat (dotplace - n)) CHR ''0''
                     else take (nat dotplace) ds);
          fracpart = (if dotplace \<le> 0 then CHR ''.'' # replicate (nat (- dotplace)) CHR ''0'' @ ds
                      else if dotplace \<ge> n then ''''
                      else CHR ''.'' # drop (nat dotplace) ds);
          ex = (if leftdigits = dotplace then '''' else CHR ''E'' # fmt_plus_d (leftdigits - dotplace))
      in intpart @ fracpart @ ex)"

fun str_dec :: "dec \<Rightarrow> string" where
  "str_dec (Fin s c e) = sign_str s @ str_fin c e"
| "str_dec (Inf s) = sign_str s @ ''Infinity''"
| "str_dec (NaN s False p) = sign_str s @ ''NaN'' @ payload_str p"
| "str_dec (NaN s True p) = sign_str s @ ''sNaN'' @ payload_str p"

subsection \<open>Parsing a Decimal from a string\<close>

text \<open>
  \<^verbatim>\<open>Decimal(value)\<close> for a string applies a regular expression, ignoring case, to
  \<^verbatim>\<open>value.strip().replace("_", "")\<close>:
  \<^verbatim>\<open>
  (?P<sign>[-+])?
  (   (?=\d|\.\d) (?P<int>\d*) (\.(?P<frac>\d*))? (E(?P<exp>[-+]?\d+))?
    | Inf(inity)?
    | (?P<signal>s)? NaN (?P<diag>\d*)
  ) \Z
  \<close>
  and, on a match, builds the value:
  \<^verbatim>\<open>
  if intpart is not None:
      fracpart = m.group('frac') or ''
      exp = int(m.group('exp') or '0')
      self._int = str(int(intpart+fracpart)); self._exp = exp - len(fracpart)
  else:
      diag = m.group('diag')
      if diag is not None:
          self._int = str(int(diag or '0')).lstrip('0')
          self._exp = 'N' if m.group('signal') else 'n'
      else:
          self._int = '0'; self._exp = 'F'
  \<close>
  No match raises \<^verbatim>\<open>InvalidOperation\<close>. Exponents are unbounded integers, as in the
  reference implementation.
\<close>

text \<open>The ASCII characters that \<^verbatim>\<open>str.strip()\<close> removes.\<close>

definition is_space :: "char \<Rightarrow> bool" where
  "is_space c = (let n = (of_char c :: nat) in (9 \<le> n \<and> n \<le> 13) \<or> (28 \<le> n \<and> n \<le> 32))"

definition strip :: "string \<Rightarrow> string" where
  "strip s = rev (dropWhile is_space (rev (dropWhile is_space s)))"

definition lower_char :: "char \<Rightarrow> char" where
  "lower_char c =
     (let n = (of_char c :: nat) in if 65 \<le> n \<and> n \<le> 90 then char_of (n + 32) else c)"

definition split_sign :: "string \<Rightarrow> bool \<times> string" where
  "split_sign s =
     (case s of
        [] \<Rightarrow> (False, [])
      | c # r \<Rightarrow>
          if c = CHR ''-'' then (True, r)
          else if c = CHR ''+'' then (False, r)
          else (False, s))"

text \<open>The optional exponent, which must reach the end of the string.\<close>

definition parse_exp :: "string \<Rightarrow> int option" where
  "parse_exp r =
     (case r of
        [] \<Rightarrow> Some 0
      | c # r1 \<Rightarrow>
          if c \<noteq> CHR ''e'' then None
          else (case split_sign r1 of
                  (neg, ds) \<Rightarrow>
                    if ds \<noteq> [] \<and> list_all is_digit ds
                    then Some (if neg then - int (nat_of_digits ds) else int (nat_of_digits ds))
                    else None))"

text \<open>The numeric alternative: coefficient and exponent.\<close>

definition parse_number :: "string \<Rightarrow> (nat \<times> int) option" where
  "parse_number r =
     (let ip = takeWhile is_digit r;
          r1 = dropWhile is_digit r;
          fr = (case r1 of
                  [] \<Rightarrow> ([], [])
                | c # r' \<Rightarrow>
                    if c = CHR ''.'' then (takeWhile is_digit r', dropWhile is_digit r')
                    else ([], r1))
      in if ip = [] \<and> fst fr = [] then None
         else (case parse_exp (snd fr) of
                 None \<Rightarrow> None
               | Some ex \<Rightarrow> Some (nat_of_digits (ip @ fst fr), ex - int (length (fst fr)))))"

text \<open>The alternatives for infinities and NaNs.\<close>

definition parse_special :: "bool \<Rightarrow> string \<Rightarrow> dec option" where
  "parse_special sg r =
     (if r = ''inf'' \<or> r = ''infinity'' then Some (Inf sg)
      else (let sr = (case r of
                        [] \<Rightarrow> (False, [])
                      | c # r' \<Rightarrow> if c = CHR ''s'' then (True, r') else (False, r))
            in if take 3 (snd sr) = ''nan'' \<and> list_all is_digit (drop 3 (snd sr))
               then Some (NaN sg (fst sr) (nat_of_digits (drop 3 (snd sr))))
               else None))"

definition Decimal_of_str :: "string \<Rightarrow> dec option" where
  "Decimal_of_str v =
     (let t = map lower_char (filter (\<lambda>c. c \<noteq> CHR ''_'') (strip v))
      in case split_sign t of
           (sg, r) \<Rightarrow>
             (case parse_number r of
                Some (c, e) \<Rightarrow> Some (Fin sg c e)
              | None \<Rightarrow> parse_special sg r))"

section \<open>Values, exceptions and the Decimal constructor\<close>

datatype pyval =
    VNone
  | VBool bool
  | VInt int
  | VStr string
  | VDec dec
  | VCat Category

text \<open>
  The exceptions that the model code raises or meets. The texts of the exceptions raised
  by the interpreter and the library are those of CPython 3.11; \<^verbatim>\<open>InvalidOperation\<close>
  carries none that the code reads.
\<close>

datatype exn =
    DataValidationError string
  | KeyError string
  | TypeError string
  | ValueError string
  | AttributeError string
  | InvalidOperation

fun is_DataValidationError :: "exn \<Rightarrow> bool" where
  "is_DataValidationError (DataValidationError m) = True"
| "is_DataValidationError e = False"

text \<open>\<^verbatim>\<open>type(v).__name__\<close> as it appears in error texts, and a text in single quotes.\<close>

definition quoted :: "string \<Rightarrow> string" where
  "quoted s = CHR 0x27 # s @ [CHR 0x27]"

fun type_name :: "pyval \<Rightarrow> string" where
  "type_name VNone = ''NoneType''"
| "type_name (VBool b) = ''bool''"
| "type_name (VInt i) = ''int''"
| "type_name (VStr s) = ''str''"
| "type_name (VDec d) = ''decimal.Decimal''"
| "type_name (VCat c) = ''Category''"

text \<open>
  Truth value of an object, as \<^verbatim>\<open>not x\<close> tests it. A Decimal is false only when it is
  a finite zero; a member of a plain enumeration is always true.
\<close>

fun truthy :: "pyval \<Rightarrow> bool" where
  "truthy VNone = False"
| "truthy (VBool b) = b"
| "truthy (VInt i) = (i \<noteq> 0)"
| "truthy (VStr s) = (s \<noteq> [])"
| "truthy (VDec (Fin s c e)) = (c \<noteq> 0)"
| "truthy (VDec d) = True"
| "truthy (VCat c) = True"

text \<open>\<^verbatim>\<open>str(v)\<close>.\<close>

fun str_val :: "pyval \<Rightarrow> string" where
  "str_val VNone = ''None''"
| "str_val (VBool b) = (if b then ''True'' else ''False'')"
| "str_val (VInt i) = str_int i"
| "str_val (VStr s) = s"
| "str_val (VDec d) = str_dec d"
| "str_val (VCat c) = ''Category.'' @ Category_name c"

text \<open>
  \<^verbatim>\<open>Decimal(v)\<close>: a string is parsed, an integer (a boolean is one) and a Decimal are
  taken as they are, anything else is a \<^verbatim>\<open>TypeError\<close>.
\<close>

fun Decimal_new :: "pyval \<Rightarrow> exn + dec" where
  "Decimal_new (VStr s) =
     (case Decimal_of_str s of None \<Rightarrow> Inl InvalidOperation | Some d \<Rightarrow> Inr d)"
| "Decimal_new (VBool b) = Inr (Fin False (if b then 1 else 0) 0)"
| "Decimal_new (VInt i) = Inr (Fin (i < 0) (nat \<bar>i\<bar>) 0)"
| "Decimal_new (VDec d) = Inr d"
| "Decimal_new v =
     Inl (TypeError (''conversion from '' @ type_name v @ '' to Decimal is not supported''))"

text \<open>
  \<^verbatim>\<open>d < 0\<close> for a Decimal. An ordering comparison with a NaN, quiet or signalling,
  signals \<^verbatim>\<open>InvalidOperation\<close>, which the default context traps: it is raised.
\<close>

fun dec_lt_zero :: "dec \<Rightarrow> exn + bool" where
  "dec_lt_zero (Fin s c e) = Inr (s \<and> c \<noteq> 0)"
| "dec_lt_zero (Inf s) = Inr s"
| "dec_lt_zero (NaN s sg p) = Inl InvalidOperation"

text \<open>\<^verbatim>\<open>v < 0\<close> for any value.\<close>

fun lt_zero :: "pyval \<Rightarrow> exn + bool" where
  "lt_zero (VDec d) = dec_lt_zero d"
| "lt_zero (VInt i) = Inr (i < 0)"
| "lt_zero (VBool b) = Inr False"
| "lt_zero v =
     Inl (TypeError (quoted ''<'' @ '' not supported between instances of ''
                     @ quoted (type_name v) @ '' and '' @ quoted ''int''))"

text \<open>The data model's bound \<open>price \<ge> 0\<close> on a Decimal; a NaN does not satisfy it.\<close>

fun dec_ge_zero :: "dec \<Rightarrow> bool" where
  "dec_ge_zero (Fin s c e) = (\<not> s \<or> c = 0)"
| "dec_ge_zero (Inf s) = (\<not> s)"
| "dec_ge_zero (NaN s sg p) = False"

text \<open>
  \<^verbatim>\<open>getattr(Category, n)\<close>. A member name gives the member. The class has further
  attributes, inherited from \<^verbatim>\<open>Enum\<close> and \<^verbatim>\<open>type\<close> (\<^verbatim>\<open>__name__\<close>,
  \<^verbatim>\<open>__doc__\<close>, ...), that are no part of the source: \<open>other\<close> is the table of those.
\<close>

definition getattr_Category :: "(string \<Rightarrow> pyval option) \<Rightarrow> pyval \<Rightarrow> exn + pyval" where
  "getattr_Category other n =
     (case n of
        VStr s \<Rightarrow>
          (case Category_member s of
             Some c \<Rightarrow> Inr (VCat c)
           | None \<Rightarrow> (case other s of Some v \<Rightarrow> Inr v | None \<Rightarrow> Inl (AttributeError s)))
      | _ \<Rightarrow> Inl (TypeError (''attribute name must be string, not '' @ quoted (type_name n))))"

section \<open>The Product model\<close>

text \<open>
  A Product object: its six mapped attributes. Assignment to an attribute checks nothing,
  so each holds any value; \<^verbatim>\<open>id\<close> is the integer primary key or \<^verbatim>\<open>None\<close>.
  \<^verbatim>\<open>Product()\<close> has every attribute \<^verbatim>\<open>None\<close>.
\<close>

record product =
  id_attr :: "int option"
  name :: pyval
  description :: pyval
  price :: pyval
  available :: pyval
  category :: pyval

definition Product_new :: product where
  "Product_new =
     \<lparr>id_attr = None, name = VNone, description = VNone, price = VNone,
      available = VNone, category = VNone\<rparr>"

text \<open>A dictionary with string keys, and the argument of \<^verbatim>\<open>deserialize\<close>: a dictionary or not.\<close>

type_synonym dict = "string \<Rightarrow> pyval option"

datatype pyarg = ADict dict | AOther pyval

text \<open>\<^verbatim>\<open>data[k]\<close>: a missing key raises \<^verbatim>\<open>KeyError(k)\<close>.\<close>

definition subscript :: "dict \<Rightarrow> string \<Rightarrow> exn + pyval" where
  "subscript d k = (case d k of None \<Rightarrow> Inl (KeyError k) | Some v \<Rightarrow> Inr v)"

subsection \<open>serialize\<close>

text \<open>
  \<^verbatim>\<open>
  def serialize(self) -> dict:
      return {"id": self.id, "name": self.name, "description": self.description,
              "price": str(self.price), "available": self.available,
              "category": self.category.name}
  \<close>
  Only \<^verbatim>\<open>self.category.name\<close> can raise, when the category is no member of the
  enumeration.
\<close>

definition serialize :: "product \<Rightarrow> exn + dict" where
  "serialize self =
     (case category self of
        VCat c \<Rightarrow>
          Inr [''id'' \<mapsto> (case id_attr self of None \<Rightarrow> VNone | Some i \<Rightarrow> VInt i),
               ''name'' \<mapsto> name self,
               ''description'' \<mapsto> description self,
               ''price'' \<mapsto> VStr (str_val (price self)),
               ''available'' \<mapsto> available self,
               ''category'' \<mapsto> VStr (Category_name c)]
      | v \<Rightarrow>
          Inl (AttributeError (quoted (type_name v) @ '' object has no attribute '' @ quoted ''name'')))"

subsection \<open>deserialize\<close>

text \<open>
  \<^verbatim>\<open>
  def deserialize(self, data: dict):
      if not isinstance(data, dict):
          raise DataValidationError("Invalid data format for deserializing a Product")
      try:
          self.name = data["name"]
          self.description = data["description"]
          try:
              self.price = Decimal(data["price"])
          except InvalidOperation:
              raise DataValidationError("Invalid price value")
          self.available = data["available"]
          self.category = getattr(Category, data["category"])
      except KeyError as error:
          raise DataValidationError(f"Invalid product: missing {error.args[0]}")
      except (TypeError, ValueError) as error:
          raise DataValidationError(f"Invalid value for product: {error}")
      if not self.name or not self.description:
          raise DataValidationError("Invalid product: name and description are required")
      if self.price < 0:
          raise DataValidationError("Invalid product: price must be >= 0")
      return self
  \<close>
  The method assigns to the receiver as it goes and returns the receiver. The model
  returns the exception raised, if any, together with the receiver's state at that
  moment: a result \<open>(None, s)\<close> is the normal return of \<open>s\<close>.
\<close>

text \<open>The inner \<^verbatim>\<open>try\<close>: \<^verbatim>\<open>Decimal(v)\<close> with \<^verbatim>\<open>InvalidOperation\<close> replaced.\<close>

definition try_price :: "pyval \<Rightarrow> exn + dec" where
  "try_price v =
     (case Decimal_new v of
        Inl InvalidOperation \<Rightarrow> Inl (DataValidationError ''Invalid price value'')
      | Inl e \<Rightarrow> Inl e
      | Inr d \<Rightarrow> Inr d)"

text \<open>The body of the outer \<^verbatim>\<open>try\<close>: five assignments, each after its lookup.\<close>

definition try_body :: "(string \<Rightarrow> pyval option) \<Rightarrow> product \<Rightarrow> dict \<Rightarrow> exn option \<times> product" where
  "try_body other self d =
     (case subscript d ''name'' of
        Inl e \<Rightarrow> (Some e, self)
      | Inr n \<Rightarrow>
     (case subscript d ''description'' of
        Inl e \<Rightarrow> (Some e, self\<lparr>name := n\<rparr>)
      | Inr ds \<Rightarrow>
     (case subscript d ''price'' of
        Inl e \<Rightarrow> (Some e, self\<lparr>name := n, description := ds\<rparr>)
      | Inr pv \<Rightarrow>
     (case try_price pv of
        Inl e \<Rightarrow> (Some e, self\<lparr>name := n, description := ds\<rparr>)
      | Inr dc \<Rightarrow>
     (case subscript d ''available'' of
        Inl e \<Rightarrow> (Some e, self\<lparr>name := n, description := ds, price := VDec dc\<rparr>)
      | Inr a \<Rightarrow>
     (case subscript d ''category'' of
        Inl e \<Rightarrow> (Some e, self\<lparr>name := n, description := ds, price := VDec dc, available := a\<rparr>)
      | Inr cn \<Rightarrow>
     (case getattr_Category other cn of
        Inl e \<Rightarrow> (Some e, self\<lparr>name := n, description := ds, price := VDec dc, available := a\<rparr>)
      | Inr c \<Rightarrow>
          (None, self\<lparr>name := n, description := ds, price := VDec dc, available := a,
                       category := c\<rparr>))))))))"

text \<open>The \<^verbatim>\<open>except\<close> clauses of the outer \<^verbatim>\<open>try\<close>; any other exception passes.\<close>

fun outer_except :: "exn \<Rightarrow> exn" where
  "outer_except (KeyError k) = DataValidationError (''Invalid product: missing '' @ k)"
| "outer_except (TypeError m) = DataValidationError (''Invalid value for product: '' @ m)"
| "outer_except (ValueError m) = DataValidationError (''Invalid value for product: '' @ m)"
| "outer_except e = e"

definition deserialize :: "(string \<Rightarrow> pyval option) \<Rightarrow> product \<Rightarrow> pyarg \<Rightarrow> exn option \<times> product" where
  "deserialize other self data =
     (case data of
        AOther v \<Rightarrow>
          (Some (DataValidationError ''Invalid data format for deserializing a Product''), self)
      | ADict d \<Rightarrow>
          (case try_body other self d of
             (Some e, s) \<Rightarrow> (Some (outer_except e), s)
           | (None, s) \<Rightarrow>
               if \<not> truthy (name s) \<or> \<not> truthy (description s)
               then (Some (DataValidationError
                             ''Invalid product: name and description are required''), s)
               else (case lt_zero (price s) of
                       Inl e \<Rightarrow> (Some e, s)
                     | Inr True \<Rightarrow>
                         (Some (DataValidationError ''Invalid product: price must be >= 0''), s)
                     | Inr False \<Rightarrow> (None, s))))"


subsection \<open>The store and the lifecycle operations\<close>

text \<open>
  The database behind \<^verbatim>\<open>db.session\<close> is modelled by its committed table: the rows by
  primary key, and the key that the next insert receives. The receiver of an operation is
  the session's object for its row, and no other object of the session has unflushed
  changes, so \<^verbatim>\<open>db.session.commit()\<close> writes the receiver's attribute values. Column
  constraints and coercions of the database engine and store-level errors are not
  modelled, and neither are the calls to the logger in this module.
\<close>

record store =
  rows :: "int \<Rightarrow> product option"
  next_id :: int

text \<open>\<^verbatim>\<open>not self.id\<close> is true for \<^verbatim>\<open>None\<close> and for 0.\<close>

fun id_truthy :: "int option \<Rightarrow> bool" where
  "id_truthy None = False"
| "id_truthy (Some i) = (i \<noteq> 0)"

text \<open>\<^verbatim>\<open>Product.query.get(key)\<close>: the row of that primary key, or \<^verbatim>\<open>None\<close>.\<close>

fun query_get :: "store \<Rightarrow> int option \<Rightarrow> product option" where
  "query_get st None = None"
| "query_get st (Some i) = rows st i"

text \<open>
  \<^verbatim>\<open>
  @classmethod
  def find(cls, product_id: int):
      return cls.query.get(product_id)
  \<close>
\<close>

definition find :: "store \<Rightarrow> int \<Rightarrow> product option" where
  "find st product_id = query_get st (Some product_id)"



text \<open>
  \<^verbatim>\<open>
  def delete(self):
      if not self.id:
          raise DataValidationError("Delete called with empty ID field")
      product = Product.query.get(self.id)
      if not product:
          raise DataValidationError("Attempt to delete a Product that does not exist")
      db.session.delete(product)
      db.session.commit()
  \<close>
\<close>

definition delete :: "product \<Rightarrow> store \<Rightarrow> exn option \<times> store" where
  "delete self st =
     (if \<not> id_truthy (id_attr self)
      then (Some (DataValidationError ''Delete called with empty ID field''), st)
      else (case query_get st (id_attr self) of
              None \<Rightarrow>
                (Some (DataValidationError ''Attempt to delete a Product that does not exist''), st)
            | Some product \<Rightarrow>
                (None, st\<lparr>rows := (rows st)(the (id_attr self) := None)\<rparr>)))"

section \<open>Application bootstrap\<close>

text \<open>
  \<^verbatim>\<open>
  app.logger.info(70 * "*")
  app.logger.info("  P E T   S E R V I C E   R U N N I N G  ".center(70, "*"))
  app.logger.info(70 * "*")
  try:
      from service.models import init_db
      init_db(app)
  except Exception as error:
      app.logger.critical("%s: Cannot continue", error)
      # gunicorn requires exit code 4 to stop spawning workers when they die
      sys.exit(4)
  app.logger.info("Service initialized!")
  \<close>
  What the body of the \<^verbatim>\<open>try\<close> does is the database's business: its result is the
  argument of the model, either an exception derived from \<^verbatim>\<open>Exception\<close>, given by its
  \<^verbatim>\<open>str()\<close>, or a normal return. (The system-exiting exceptions, which are not derived
  from \<^verbatim>\<open>Exception\<close>, are not values of this type; the handler does not catch them.)
  The model returns the records written to the application's logger and how the module
  ends: with \<^verbatim>\<open>sys.exit\<close>, or initialised and going on to import the routes.
\<close>

datatype level = INFO | CRITICAL

datatype py_exception = Exception string

datatype outcome = Exit int | Initialized

definition banner :: "(level \<times> string) list" where
  "banner =
     [(INFO, replicate 70 CHR ''*''),
      (INFO, replicate 14 CHR ''*'' @ ''  P E T   S E R V I C E   R U N N I N G  ''
             @ replicate 15 CHR ''*''),
      (INFO, replicate 70 CHR ''*'')]"

definition bootstrap :: "py_exception + unit \<Rightarrow> (level \<times> string) list \<times> outcome" where
  "bootstrap init =
     (case init of
        Inl (Exception msg) \<Rightarrow> (banner @ [(CRITICAL, msg @ '': Cannot continue'')], Exit 4)
      | Inr u \<Rightarrow> (banner @ [(INFO, ''Service initialized!'')], Initialized))"

section \<open>Example objects\<close>

text \<open>A Product that satisfies the invariants of the data model, and its dictionary.\<close>

definition hat :: product where
  "hat = \<lparr>id_attr = Some 7, name = VStr ''Hat'', description = VStr ''A red hat'',
          price = VDec (Fin False 1250 (- 2)), available = VBool True, category = VCat CLOTHS\<rparr>"

definition hat_data :: dict where
  "hat_data =
     [''name'' \<mapsto> VStr ''Hat'', ''description'' \<mapsto> VStr ''A red hat'',
      ''price'' \<mapsto> VStr ''12.50'', ''available'' \<mapsto> VBool True,
      ''category'' \<mapsto> VStr ''CLOTHS'']"



definition wrench :: product where
  "wrench = \<lparr>id_attr = Some 3, name = VStr ''Wrench'', description = VStr ''A steel wrench'',
             price = VDec (Fin False 8 0), available = VBool False, category = VCat TOOLS\<rparr>"

text \<open>A store that holds one row, and a Product with empty name and description.\<close>

definition shop :: store where
  "shop = \<lparr>rows = [3 \<mapsto> wrench], next_id = 4\<rparr>"


section \<open>Auxiliary notions for the proofs\<close>

text \<open>A character that neither \<^verbatim>\<open>strip()\<close> nor \<^verbatim>\<open>replace("_", "")\<close> removes.\<close>

definition plain_char :: "char \<Rightarrow> bool" where
  "plain_char c = (\<not> is_space c \<and> c \<noteq> CHR ''_'')"




section \<open>Digits and the round trip of Decimal through its string\<close>

lemma is_digit_digit_char: "n < 10 \<Longrightarrow> is_digit (digit_char n)"
  by (simp add: is_digit_def digit_char_def)

lemma digit_val_digit_char: "n < 10 \<Longrightarrow> digit_val (digit_char n) = n"
  by (simp add: digit_val_def digit_char_def)

lemma digits_of_nat_all_digits: "list_all is_digit (digits_of_nat n)"
proof (induction n rule: digits_of_nat.induct)
  case (1 n)
  show ?case
  proof (cases "n < 10")
    case True
    then show ?thesis
      by (subst digits_of_nat.simps) (simp add: is_digit_digit_char)
  next
    case False
    with 1 show ?thesis
      by (subst digits_of_nat.simps) (simp add: is_digit_digit_char)
  qed
qed

lemma digits_of_nat_nonempty: "digits_of_nat n \<noteq> []"
  by (subst digits_of_nat.simps) simp

lemma nat_of_digits_snoc: "nat_of_digits (ds @ [c]) = 10 * nat_of_digits ds + digit_val c"
  by (simp add: nat_of_digits_def)

lemma nat_of_digits_of_nat: "nat_of_digits (digits_of_nat n) = n"
proof (induction n rule: digits_of_nat.induct)
  case (1 n)
  show ?case
  proof (cases "n < 10")
    case True
    then show ?thesis
      by (subst digits_of_nat.simps) (simp add: nat_of_digits_def digit_val_digit_char)
  next
    case False
    with 1 show ?thesis
      by (subst digits_of_nat.simps) (simp add: nat_of_digits_snoc digit_val_digit_char)
  qed
qed

lemma foldl_digits_acc:
  "foldl (\<lambda>a c. 10 * a + digit_val c) a ds =
     a * 10 ^ length ds + foldl (\<lambda>a c. 10 * a + digit_val c) 0 ds"
proof (induction ds arbitrary: a)
  case Nil
  show ?case by simp
next
  case (Cons c ds)
  have "foldl (\<lambda>a c. 10 * a + digit_val c) a (c # ds) =
          foldl (\<lambda>a c. 10 * a + digit_val c) (10 * a + digit_val c) ds"
    by simp
  also have "\<dots> = (10 * a + digit_val c) * 10 ^ length ds
                    + foldl (\<lambda>a c. 10 * a + digit_val c) 0 ds"
    by (rule Cons.IH)
  also have "foldl (\<lambda>a c. 10 * a + digit_val c) 0 (c # ds) =
               digit_val c * 10 ^ length ds + foldl (\<lambda>a c. 10 * a + digit_val c) 0 ds"
    using Cons.IH [of "digit_val c"] by simp
  ultimately show ?case
    by (simp add: algebra_simps)
qed

lemma nat_of_digits_append:
  "nat_of_digits (xs @ ys) = nat_of_digits xs * 10 ^ length ys + nat_of_digits ys"
  using foldl_digits_acc [of "nat_of_digits xs" ys] by (simp add: nat_of_digits_def)

lemma nat_of_digits_replicate_zero: "nat_of_digits (replicate k CHR ''0'') = 0"
proof (induction k)
  case 0
  show ?case by (simp add: nat_of_digits_def)
next
  case (Suc k)
  have "nat_of_digits (replicate (Suc k) CHR ''0'') = nat_of_digits (replicate k CHR ''0'' @ ''0'')"
    by (simp add: replicate_append_same)
  also have "\<dots> = 0"
    using Suc by (simp add: nat_of_digits_snoc digit_val_def)
  finally show ?case .
qed

lemma nat_of_digits_zeros: "nat_of_digits (replicate k CHR ''0'' @ ds) = nat_of_digits ds"
  by (simp add: nat_of_digits_append nat_of_digits_replicate_zero)

lemma nat_of_digits_zero_cons: "nat_of_digits (CHR ''0'' # ds) = nat_of_digits ds"
  using nat_of_digits_zeros [of 1 ds] by simp

lemma span_digits:
  assumes "list_all is_digit ds" and "x = [] \<or> \<not> is_digit (hd x)"
  shows "takeWhile is_digit (ds @ x) = ds" and "dropWhile is_digit (ds @ x) = x"
proof -
  have x: "takeWhile is_digit x = []" "dropWhile is_digit x = x"
    using assms(2) by (cases x; simp)+
  from assms(1) have all: "\<And>c. c \<in> set ds \<Longrightarrow> is_digit c"
    by (simp add: list_all_iff)
  show "takeWhile is_digit (ds @ x) = ds"
    using all x by (simp add: takeWhile_append2)
  show "dropWhile is_digit (ds @ x) = x"
    using all x by (simp add: dropWhile_append2)
qed

lemma not_digit_e: "\<not> is_digit CHR ''e''" "\<not> is_digit CHR ''.''"
  by (simp_all add: is_digit_def)

lemma split_sign_fmt: "split_sign (fmt_plus_d k) = (k < 0, digits_of_nat (nat \<bar>k\<bar>))"
  by (simp add: split_sign_def fmt_plus_d_def)

lemma parse_exp_fmt: "parse_exp (CHR ''e'' # fmt_plus_d k) = Some k"
  by (simp add: parse_exp_def split_sign_fmt digits_of_nat_nonempty digits_of_nat_all_digits
      nat_of_digits_of_nat)

lemma parse_exp_Nil: "parse_exp [] = Some 0"
  by (simp add: parse_exp_def)

lemma parse_number_int:
  assumes "list_all is_digit ip" and "ip \<noteq> []"
    and "x = [] \<or> hd x = CHR ''e''" and "parse_exp x = Some ex"
  shows "parse_number (ip @ x) = Some (nat_of_digits ip, ex)"
proof -
  have nd: "x = [] \<or> \<not> is_digit (hd x)"
    using assms(3) not_digit_e by auto
  have fr: "(case x of [] \<Rightarrow> ([], []) | c # r' \<Rightarrow>
               if c = CHR ''.'' then (takeWhile is_digit r', dropWhile is_digit r') else ([], x))
            = ([], x)"
    using assms(3) by (cases x) auto
  show ?thesis
    unfolding parse_number_def Let_def span_digits [OF assms(1) nd] fr
    using assms(2,4) by simp
qed

lemma parse_number_frac:
  assumes "list_all is_digit ip" and "list_all is_digit fp" and "ip @ fp \<noteq> []"
    and "x = [] \<or> hd x = CHR ''e''" and "parse_exp x = Some ex"
  shows "parse_number (ip @ CHR ''.'' # fp @ x) = Some (nat_of_digits (ip @ fp), ex - int (length fp))"
proof -
  have nd: "x = [] \<or> \<not> is_digit (hd x)"
    using assms(4) not_digit_e by auto
  have nd': "CHR ''.'' # fp @ x = [] \<or> \<not> is_digit (hd (CHR ''.'' # fp @ x))"
    using not_digit_e by simp
  show ?thesis
    unfolding parse_number_def Let_def span_digits [OF assms(1) nd']
    using assms(3,5) span_digits [OF assms(2) nd] by simp
qed

lemma lower_char_E: "lower_char CHR ''E'' = CHR ''e''"
  by code_simp

lemma lower_char_punct:
  "lower_char CHR ''.'' = CHR ''.''" "lower_char CHR ''-'' = CHR ''-''"
  "lower_char CHR ''+'' = CHR ''+''"
  by (simp_all add: lower_char_def)

lemma lower_char_digit: "is_digit c \<Longrightarrow> lower_char c = c"
  by (simp add: lower_char_def is_digit_def Let_def)

lemma lower_digits: "list_all is_digit ds \<Longrightarrow> map lower_char ds = ds"
  by (induction ds) (simp_all add: lower_char_digit)

lemma lower_digits_of_nat: "map lower_char (digits_of_nat n) = digits_of_nat n"
  by (rule lower_digits) (rule digits_of_nat_all_digits)

lemma lower_fmt: "map lower_char (fmt_plus_d k) = fmt_plus_d k"
  by (simp add: fmt_plus_d_def lower_digits_of_nat lower_char_def)

lemma list_all_take_drop:
  "list_all P xs \<Longrightarrow> list_all P (take k xs)" "list_all P xs \<Longrightarrow> list_all P (drop k xs)"
  by (auto simp: list_all_iff dest: in_set_takeD in_set_dropD)

lemma parse_str_fin: "parse_number (map lower_char (str_fin c e)) = Some (c, e)"
proof -
  define ds where "ds = digits_of_nat c"
  define n where "n = int (length ds)"
  have dig: "list_all is_digit ds" and ne: "ds \<noteq> []" and val: "nat_of_digits ds = c"
    and low: "map lower_char ds = ds"
    by (simp_all add: ds_def digits_of_nat_all_digits digits_of_nat_nonempty
        nat_of_digits_of_nat lower_digits_of_nat)
  have npos: "n \<ge> 1"
    using ne by (cases ds) (simp_all add: n_def)
  consider (small) "e \<le> 0" "e + n > - 6" "e + n \<le> 0"
    | (inner) "e < 0" "0 < e + n"
    | (whole) "e = 0"
    | (sci1) "\<not> (e \<le> 0 \<and> e + n > - 6)" "n = 1"
    | (sci) "\<not> (e \<le> 0 \<and> e + n > - 6)" "n > 1"
    using npos by linarith
  then show ?thesis
  proof cases
    case small
    have "str_fin c e = ''0'' @ CHR ''.'' # (replicate (nat (- (e + n))) CHR ''0'' @ ds) @ []"
      using small ne by (simp add: str_fin_def Let_def ds_def [symmetric] n_def [symmetric])
    then have "map lower_char (str_fin c e)
                 = ''0'' @ CHR ''.'' # (replicate (nat (- (e + n))) CHR ''0'' @ ds) @ []"
      by (simp add: low lower_char_def)
    moreover have "list_all is_digit (replicate (nat (- (e + n))) CHR ''0'' @ ds)"
      using dig by (auto simp: list_all_iff is_digit_def)
    moreover have "list_all is_digit ''0''"
      by (simp add: is_digit_def)
    ultimately have "parse_number (map lower_char (str_fin c e))
        = Some (nat_of_digits (''0'' @ replicate (nat (- (e + n))) CHR ''0'' @ ds),
                0 - int (length (replicate (nat (- (e + n))) CHR ''0'' @ ds)))"
      using parse_number_frac [of "''0''" "replicate (nat (- (e + n))) CHR ''0'' @ ds" "[]" 0]
      by (simp add: parse_exp_Nil)
    then show ?thesis
      using small by (simp add: nat_of_digits_zero_cons nat_of_digits_zeros val n_def)
  next
    case inner
    have lt: "e + n < n" using inner by simp
    have "str_fin c e = take (nat (e + n)) ds @ CHR ''.'' # drop (nat (e + n)) ds @ []"
      using inner lt ne by (simp add: str_fin_def Let_def ds_def [symmetric] n_def [symmetric])
    then have "map lower_char (str_fin c e)
                 = take (nat (e + n)) ds @ CHR ''.'' # drop (nat (e + n)) ds @ []"
      using low by (simp add: lower_char_def take_map [symmetric] drop_map [symmetric])
    then have "parse_number (map lower_char (str_fin c e))
        = Some (nat_of_digits (take (nat (e + n)) ds @ drop (nat (e + n)) ds),
                0 - int (length (drop (nat (e + n)) ds)))"
      using parse_number_frac [of "take (nat (e + n)) ds" "drop (nat (e + n)) ds" "[]" 0] dig ne
      by (simp add: parse_exp_Nil list_all_take_drop)
    then show ?thesis
      using inner by (simp add: val n_def)
  next
    case whole
    have "str_fin c e = ds @ []"
      using whole npos ne by (simp add: str_fin_def Let_def ds_def [symmetric] n_def [symmetric])
    then have "map lower_char (str_fin c e) = ds @ []"
      using low by simp
    then show ?thesis
      using parse_number_int [of ds "[]" 0] dig ne whole by (simp add: parse_exp_Nil val)
  next
    case sci1
    have ld: "e + n \<noteq> 1" using sci1 npos by linarith
    have "str_fin c e = ds @ CHR ''E'' # fmt_plus_d (e + n - 1)"
      using sci1 ld ne by (auto simp add: str_fin_def Let_def ds_def [symmetric] n_def [symmetric])
    then have "map lower_char (str_fin c e) = ds @ CHR ''e'' # fmt_plus_d (e + n - 1)"
      using low by (simp add: lower_fmt lower_char_E)
    then show ?thesis
      using parse_number_int [of ds "CHR ''e'' # fmt_plus_d (e + n - 1)" "e + n - 1"] dig ne sci1
      by (simp add: parse_exp_fmt val)
  next
    case sci
    have ld: "e + n \<noteq> 1" using sci npos by linarith
    have "str_fin c e = take 1 ds @ CHR ''.'' # drop 1 ds @ CHR ''E'' # fmt_plus_d (e + n - 1)"
      using sci ld ne by (auto simp add: str_fin_def Let_def ds_def [symmetric] n_def [symmetric])
    then have "map lower_char (str_fin c e)
                 = take 1 ds @ CHR ''.'' # drop 1 ds @ CHR ''e'' # fmt_plus_d (e + n - 1)"
      using low by (simp add: lower_fmt lower_char_E lower_char_punct take_map [symmetric] drop_map [symmetric])
    then have "parse_number (map lower_char (str_fin c e))
        = Some (nat_of_digits (take 1 ds @ drop 1 ds), (e + n - 1) - int (length (drop 1 ds)))"
      using parse_number_frac [of "take 1 ds" "drop 1 ds" "CHR ''e'' # fmt_plus_d (e + n - 1)" "e + n - 1"]
        dig ne
      by (simp add: parse_exp_fmt list_all_take_drop)
    then show ?thesis
      using sci npos by (simp add: val n_def)
  qed
qed

lemma dropWhile_none: "\<forall>c \<in> set s. \<not> P c \<Longrightarrow> dropWhile P s = s"
  by (cases s) simp_all

lemma strip_no_space: "\<forall>c \<in> set s. \<not> is_space c \<Longrightarrow> strip s = s"
  by (simp add: strip_def dropWhile_none)

lemma filter_no_underscore:
  "\<forall>c \<in> set s. c \<noteq> CHR ''_'' \<Longrightarrow> filter (\<lambda>c. c \<noteq> CHR ''_'') s = s"
  by (induction s) simp_all

lemma plain_digit: "is_digit c \<Longrightarrow> plain_char c"
  by (auto simp: plain_char_def is_digit_def is_space_def Let_def)

lemma plain_digits: "list_all is_digit ds \<Longrightarrow> list_all plain_char ds"
  by (simp add: list_all_iff plain_digit)

lemma plain_literals:
  "plain_char CHR ''-''" "plain_char CHR ''+''" "plain_char CHR ''.''" "plain_char CHR ''E''"
  "plain_char CHR ''0''" "plain_char CHR ''I''" "plain_char CHR ''n''" "plain_char CHR ''f''"
  "plain_char CHR ''i''" "plain_char CHR ''t''" "plain_char CHR ''y''" "plain_char CHR ''N''"
  "plain_char CHR ''a''" "plain_char CHR ''s''"
  by (simp_all add: plain_char_def is_space_def)

lemma plain_fmt: "list_all plain_char (fmt_plus_d k)"
  by (simp add: fmt_plus_d_def plain_literals plain_digits digits_of_nat_all_digits)

lemma plain_sign: "list_all plain_char (sign_str s)"
  by (simp add: sign_str_def plain_literals)

lemma plain_payload: "list_all plain_char (payload_str p)"
  by (simp add: payload_str_def plain_digits digits_of_nat_all_digits)

lemma plain_str_fin: "list_all plain_char (str_fin c e)"
proof -
  have ds: "list_all plain_char (digits_of_nat c)"
    by (simp add: plain_digits digits_of_nat_all_digits)
  have z: "\<And>k. list_all plain_char (replicate k CHR ''0'')"
    by (simp add: list_all_iff plain_literals)
  show ?thesis
    unfolding str_fin_def Let_def
    by (simp add: ds z plain_literals plain_fmt list_all_take_drop)
qed

lemma plain_str_dec: "list_all plain_char (str_dec d)"
proof (cases d)
  case (Fin s c e)
  then show ?thesis by (simp add: plain_sign plain_str_fin)
next
  case (Inf s)
  then show ?thesis by (simp add: plain_sign plain_literals)
next
  case (NaN s sg p)
  then show ?thesis
    by (cases sg) (simp_all add: plain_sign plain_payload plain_literals)
qed

lemma normalise_plain:
  assumes "list_all plain_char s"
  shows "filter (\<lambda>c. c \<noteq> CHR ''_'') (strip s) = s"
proof -
  from assms have "\<forall>c \<in> set s. \<not> is_space c" and u: "\<forall>c \<in> set s. c \<noteq> CHR ''_''"
    by (simp_all add: list_all_iff plain_char_def)
  then have "strip s = s"
    by (simp add: strip_no_space)
  with u show ?thesis
    by (simp add: filter_no_underscore)
qed

lemma parse_number_no_sign:
  assumes "parse_number r = Some x"
  shows "split_sign r = (False, r)"
proof (cases r)
  case Nil
  then show ?thesis by (simp add: split_sign_def)
next
  case (Cons a r')
  have "a \<noteq> CHR ''-'' \<and> a \<noteq> CHR ''+''"
  proof (rule ccontr)
    assume "\<not> (a \<noteq> CHR ''-'' \<and> a \<noteq> CHR ''+'')"
    then have "parse_number r = None"
      using Cons by (auto simp: parse_number_def is_digit_def)
    with assms show False by simp
  qed
  with Cons show ?thesis by (simp add: split_sign_def)
qed

lemma split_sign_signed:
  assumes "split_sign r = (False, r)"
  shows "split_sign (map lower_char (sign_str s) @ r) = (s, r)"
proof (cases s)
  case True
  then show ?thesis by (simp add: sign_str_def lower_char_punct split_sign_def)
next
  case False
  with assms show ?thesis by (simp add: sign_str_def)
qed

lemma Decimal_of_str_fin: "Decimal_of_str (str_dec (Fin s c e)) = Some (Fin s c e)"
proof -
  have n: "filter (\<lambda>c. c \<noteq> CHR ''_'') (strip (str_dec (Fin s c e))) = str_dec (Fin s c e)"
    by (rule normalise_plain) (rule plain_str_dec)
  have p: "parse_number (map lower_char (str_fin c e)) = Some (c, e)"
    by (rule parse_str_fin)
  have "split_sign (map lower_char (sign_str s) @ map lower_char (str_fin c e))
          = (s, map lower_char (str_fin c e))"
    by (rule split_sign_signed) (rule parse_number_no_sign [OF p])
  then show ?thesis
    unfolding Decimal_of_str_def n Let_def by (simp add: p)
qed

lemma lower_payload: "map lower_char (payload_str p) = payload_str p"
  by (simp add: payload_str_def lower_digits_of_nat)

lemma payload_digits: "list_all is_digit (payload_str p)"
  by (simp add: payload_str_def digits_of_nat_all_digits)

lemma nat_of_payload: "nat_of_digits (payload_str p) = p"
  by (simp add: payload_str_def nat_of_digits_of_nat) (simp add: nat_of_digits_def)

lemma lower_words:
  "lower_char CHR ''I'' = CHR ''i''" "lower_char CHR ''N'' = CHR ''n''"
  "lower_char CHR ''n'' = CHR ''n''" "lower_char CHR ''f'' = CHR ''f''"
  "lower_char CHR ''i'' = CHR ''i''" "lower_char CHR ''t'' = CHR ''t''"
  "lower_char CHR ''y'' = CHR ''y''" "lower_char CHR ''a'' = CHR ''a''"
  "lower_char CHR ''s'' = CHR ''s''"
  by code_simp+

lemma parse_number_letter:
  "parse_number (CHR ''i'' # r) = None" "parse_number (CHR ''n'' # r) = None"
  "parse_number (CHR ''s'' # r) = None"
  by (simp_all add: parse_number_def is_digit_def)

lemma split_sign_letter:
  "split_sign (CHR ''i'' # r) = (False, CHR ''i'' # r)"
  "split_sign (CHR ''n'' # r) = (False, CHR ''n'' # r)"
  "split_sign (CHR ''s'' # r) = (False, CHR ''s'' # r)"
  by (simp_all add: split_sign_def)

lemma Decimal_of_str_inf: "Decimal_of_str (str_dec (Inf s)) = Some (Inf s)"
proof -
  have n: "filter (\<lambda>c. c \<noteq> CHR ''_'') (strip (str_dec (Inf s))) = str_dec (Inf s)"
    by (rule normalise_plain) (rule plain_str_dec)
  have "split_sign (map lower_char (sign_str s) @ ''infinity'') = (s, ''infinity'')"
    by (rule split_sign_signed) (simp add: split_sign_letter)
  then show ?thesis
    unfolding Decimal_of_str_def n Let_def
    by (simp add: lower_words parse_number_letter parse_special_def)
qed

lemma Decimal_of_str_nan: "Decimal_of_str (str_dec (NaN s sg p)) = Some (NaN s sg p)"
proof -
  have n: "filter (\<lambda>c. c \<noteq> CHR ''_'') (strip (str_dec (NaN s sg p))) = str_dec (NaN s sg p)"
    by (rule normalise_plain) (rule plain_str_dec)
  show ?thesis
  proof (cases sg)
    case False
    have "split_sign (map lower_char (sign_str s) @ ''nan'' @ payload_str p)
            = (s, ''nan'' @ payload_str p)"
      by (rule split_sign_signed) (simp add: split_sign_letter)
    then show ?thesis
      unfolding Decimal_of_str_def n Let_def using False
      by (simp add: lower_words lower_payload parse_number_letter parse_special_def
          payload_digits nat_of_payload)
  next
    case True
    have "split_sign (map lower_char (sign_str s) @ ''snan'' @ payload_str p)
            = (s, ''snan'' @ payload_str p)"
      by (rule split_sign_signed) (simp add: split_sign_letter)
    then show ?thesis
      unfolding Decimal_of_str_def n Let_def using True
      by (simp add: lower_words lower_payload parse_number_letter parse_special_def
          payload_digits nat_of_payload)
  qed
qed

lemma Decimal_of_str_str_dec: "Decimal_of_str (str_dec d) = Some d"
  by (cases d) (simp_all only: Decimal_of_str_fin Decimal_of_str_inf Decimal_of_str_nan)

section \<open>Serialisation\<close>

lemma Category_member_name: "Category_member (Category_name c) = Some c"
  by (cases c) (simp_all add: Category_member_def Category_members_def)

lemma Decimal_new_str_dec: "Decimal_new (VStr (str_dec d)) = Inr d"
  by (simp add: Decimal_of_str_str_dec)

lemma dec_ge_zero_not_lt: "dec_ge_zero d \<Longrightarrow> dec_lt_zero d = Inr False"
  by (cases d) auto

lemma try_body_all_present:
  assumes "d ''name'' = Some n" and "d ''description'' = Some ds" and "d ''price'' = Some pv"
    and "d ''available'' = Some a" and "d ''category'' = Some cn"
    and "Decimal_new pv = Inr dc" and "getattr_Category other cn = Inr c"
  shows "try_body other self d =
           (None, self\<lparr>name := n, description := ds, price := VDec dc, available := a,
                        category := c\<rparr>)"
  using assms by (simp add: try_body_def subscript_def try_price_def)

text \<open>
  C1. A Product whose name and description are non-empty strings, whose price is a Decimal
  that is at least 0 and whose category is a member of the enumeration serialises to a
  dictionary, and \<^verbatim>\<open>deserialize\<close> of that dictionary on any receiver \<open>q\<close> (a fresh
  \<^verbatim>\<open>Product()\<close> among them) returns normally with name, description, price, available
  and category equal to those of the Product. Whatever the dictionary holds under
  \<^verbatim>\<open>id\<close> makes no difference, and the receiver keeps its own id.
\<close>

theorem deserialize_serialize_roundtrip:
  assumes "name p = VStr n" and "n \<noteq> []"
    and "description p = VStr ds" and "ds \<noteq> []"
    and "price p = VDec d" and "dec_ge_zero d"
    and "category p = VCat c"
  shows "\<exists>m. serialize p = Inr m \<and>
           (\<forall>x. deserialize other q (ADict (m(''id'' := x))) =
                  (None, q\<lparr>name := name p, description := description p, price := price p,
                            available := available p, category := category p\<rparr>))"
proof -
  define m where "m = [''id'' \<mapsto> (case id_attr p of None \<Rightarrow> VNone | Some i \<Rightarrow> VInt i),
               ''name'' \<mapsto> name p,
               ''description'' \<mapsto> description p,
               ''price'' \<mapsto> VStr (str_val (price p)),
               ''available'' \<mapsto> available p,
               ''category'' \<mapsto> VStr (Category_name c)]"
  have ser: "serialize p = Inr m"
    using assms(7) by (simp add: serialize_def m_def)
  have cat: "getattr_Category other (VStr (Category_name c)) = Inr (VCat c)"
    by (simp add: getattr_Category_def Category_member_name)
  have pr: "Decimal_new (VStr (str_val (price p))) = Inr d"
    using assms(5) by (simp add: Decimal_of_str_str_dec)
  have "deserialize other q (ADict (m(''id'' := x))) =
          (None, q\<lparr>name := name p, description := description p, price := price p,
                    available := available p, category := category p\<rparr>)" for x
  proof -
    have body: "try_body other q (m(''id'' := x)) =
        (None, q\<lparr>name := name p, description := description p, price := VDec d,
                  available := available p, category := VCat c\<rparr>)"
      by (rule try_body_all_present [OF _ _ _ _ _ pr cat]) (simp_all add: m_def)
    show ?thesis
      unfolding deserialize_def using assms
      by (simp add: body dec_ge_zero_not_lt)
  qed
  with ser show ?thesis by blast
qed

theorem deserialize_serialize_roundtrip_witness:
  "name hat = VStr ''Hat'' \<and> ''Hat'' \<noteq> [] \<and> description hat = VStr ''A red hat'' \<and> ''A red hat'' \<noteq> []
   \<and> price hat = VDec (Fin False 1250 (- 2)) \<and> dec_ge_zero (Fin False 1250 (- 2))
   \<and> category hat = VCat CLOTHS
   \<and> (\<exists>m. serialize hat = Inr m \<and>
           (\<forall>x. deserialize Map.empty Product_new (ADict (m(''id'' := x))) =
                  (None, hat\<lparr>id_attr := None\<rparr>)))"
proof -
  have h: "name hat = VStr ''Hat''" "''Hat'' \<noteq> []" "description hat = VStr ''A red hat''"
    "''A red hat'' \<noteq> []" "price hat = VDec (Fin False 1250 (- 2))"
    "dec_ge_zero (Fin False 1250 (- 2))" "category hat = VCat CLOTHS"
    by (simp_all add: hat_def)
  have "Product_new\<lparr>name := name hat, description := description hat, price := price hat,
            available := available hat, category := category hat\<rparr> = hat\<lparr>id_attr := None\<rparr>"
    by (simp add: Product_new_def hat_def)
  with deserialize_serialize_roundtrip [OF h, of Map.empty Product_new] h show ?thesis
    by simp
qed

section \<open>Exceptions that escape deserialize\<close>

lemma try_body_bad_category:
  assumes "d ''name'' = Some n" and "d ''description'' = Some ds" and "d ''price'' = Some pv"
    and "d ''available'' = Some a" and "d ''category'' = Some cn"
    and "Decimal_new pv = Inr dc" and "getattr_Category other cn = Inl e"
  shows "try_body other self d =
           (Some e, self\<lparr>name := n, description := ds, price := VDec dc, available := a\<rparr>)"
  using assms by (simp add: try_body_def subscript_def try_price_def)

text \<open>
  C2. When every required key is present, the price converts to a Decimal and the category
  is a string that names no member of the enumeration (nor another attribute of the
  class), \<^verbatim>\<open>getattr\<close> raises \<^verbatim>\<open>AttributeError\<close>. No \<^verbatim>\<open>except\<close> clause of
  \<^verbatim>\<open>deserialize\<close> names that class, so the caller receives the \<^verbatim>\<open>AttributeError\<close>
  and not a \<^verbatim>\<open>DataValidationError\<close>; the receiver keeps the four attributes assigned
  before.
\<close>

theorem deserialize_unknown_category_AttributeError:
  assumes "d ''name'' = Some n" and "d ''description'' = Some ds" and "d ''price'' = Some pv"
    and "d ''available'' = Some a" and "d ''category'' = Some (VStr s)"
    and "Decimal_new pv = Inr dc"
    and "Category_member s = None" and "other s = None"
  shows "deserialize other self (ADict d) =
           (Some (AttributeError s),
            self\<lparr>name := n, description := ds, price := VDec dc, available := a\<rparr>)"
proof -
  have "getattr_Category other (VStr s) = Inl (AttributeError s)"
    using assms(7,8) by (simp add: getattr_Category_def)
  then have "try_body other self d =
      (Some (AttributeError s), self\<lparr>name := n, description := ds, price := VDec dc, available := a\<rparr>)"
    by (rule try_body_bad_category [OF assms(1,2,3,4,5,6)])
  then show ?thesis
    by (simp add: deserialize_def)
qed

lemma Decimal_of_str_12_50: "Decimal_of_str ''12.50'' = Some (Fin False 1250 (- 2))"
  by code_simp

lemma Decimal_of_str_NaN: "Decimal_of_str ''NaN'' = Some (NaN False False 0)"
  by code_simp

lemma Category_member_BOGUS: "Category_member ''BOGUS'' = None"
  by code_simp

theorem deserialize_unknown_category_AttributeError_witness:
  "deserialize Map.empty Product_new (ADict (hat_data(''category'' \<mapsto> VStr ''BOGUS''))) =
     (Some (AttributeError ''BOGUS''),
      Product_new\<lparr>name := VStr ''Hat'', description := VStr ''A red hat'',
                   price := VDec (Fin False 1250 (- 2)), available := VBool True\<rparr>)
   \<and> \<not> is_DataValidationError (AttributeError ''BOGUS'')"
proof -
  let ?d = "hat_data(''category'' \<mapsto> VStr ''BOGUS'')"
  have h: "?d ''name'' = Some (VStr ''Hat'')" "?d ''description'' = Some (VStr ''A red hat'')"
    "?d ''price'' = Some (VStr ''12.50'')" "?d ''available'' = Some (VBool True)"
    "?d ''category'' = Some (VStr ''BOGUS'')"
    by (simp_all add: hat_data_def)
  have p: "Decimal_new (VStr ''12.50'') = Inr (Fin False 1250 (- 2))"
    by (simp add: Decimal_of_str_12_50)
  have e: "Map.empty ''BOGUS'' = (None :: pyval option)"
    by simp
  show ?thesis
    using deserialize_unknown_category_AttributeError [OF h p Category_member_BOGUS e, of Product_new]
    by (simp add: fun_upd_def)
qed

text \<open>
  C5. When the price entry converts to a NaN (the string \<^verbatim>\<open>"NaN"\<close> does), the name and
  the description are true values and the category resolves, the comparison
  \<^verbatim>\<open>self.price < 0\<close> raises \<^verbatim>\<open>InvalidOperation\<close> outside every \<^verbatim>\<open>try\<close>: the caller
  receives \<^verbatim>\<open>InvalidOperation\<close> and not a \<^verbatim>\<open>DataValidationError\<close>.
\<close>

theorem deserialize_NaN_price_InvalidOperation:
  assumes "d ''name'' = Some n" and "truthy n"
    and "d ''description'' = Some ds" and "truthy ds"
    and "d ''price'' = Some pv" and "Decimal_new pv = Inr (NaN sg sn pl)"
    and "d ''available'' = Some a" and "d ''category'' = Some cn"
    and "getattr_Category other cn = Inr c"
  shows "deserialize other self (ADict d) =
           (Some InvalidOperation,
            self\<lparr>name := n, description := ds, price := VDec (NaN sg sn pl), available := a,
                     category := c\<rparr>)"
proof -
  have "try_body other self d =
      (None, self\<lparr>name := n, description := ds, price := VDec (NaN sg sn pl), available := a,
                     category := c\<rparr>)"
    by (rule try_body_all_present [OF assms(1,3,5,7,8,6,9)])
  then show ?thesis
    using assms(2,4) by (simp add: deserialize_def)
qed

lemma Category_member_CLOTHS: "Category_member ''CLOTHS'' = Some CLOTHS"
  by code_simp

theorem deserialize_NaN_price_InvalidOperation_witness:
  "deserialize Map.empty Product_new (ADict (hat_data(''price'' \<mapsto> VStr ''NaN''))) =
     (Some InvalidOperation,
      Product_new\<lparr>name := VStr ''Hat'', description := VStr ''A red hat'',
                   price := VDec (NaN False False 0), available := VBool True,
                   category := VCat CLOTHS\<rparr>)
   \<and> \<not> is_DataValidationError InvalidOperation"
proof -
  let ?d = "hat_data(''price'' \<mapsto> VStr ''NaN'')"
  have h: "?d ''name'' = Some (VStr ''Hat'')" "truthy (VStr ''Hat'')"
    "?d ''description'' = Some (VStr ''A red hat'')" "truthy (VStr ''A red hat'')"
    "?d ''price'' = Some (VStr ''NaN'')"
    by (simp_all add: hat_data_def)
  have h2: "?d ''available'' = Some (VBool True)" "?d ''category'' = Some (VStr ''CLOTHS'')"
    by (simp_all add: hat_data_def)
  have p: "Decimal_new (VStr ''NaN'') = Inr (NaN False False 0)"
    by (simp add: Decimal_of_str_NaN)
  have c: "getattr_Category Map.empty (VStr ''CLOTHS'') = Inr (VCat CLOTHS)"
    by (simp add: getattr_Category_def Category_member_CLOTHS)
  show ?thesis
    using deserialize_NaN_price_InvalidOperation [OF h p h2 c, of Product_new]
    by (simp add: fun_upd_def)
qed

section \<open>What deserialize accepts and what it leaves behind\<close>

text \<open>
  C9. \<^verbatim>\<open>deserialize\<close> does not check the entry \<^verbatim>\<open>available\<close>: when name and description
  are present and true, the price converts to a Decimal that is not below 0 and the
  category resolves, then with any value \<open>v\<close> whatsoever under \<^verbatim>\<open>available\<close> (a string or
  an integer as well as a boolean) \<^verbatim>\<open>deserialize\<close> returns normally and the receiver's
  \<^verbatim>\<open>available\<close> is \<open>v\<close> itself.
\<close>

theorem deserialize_available_unchecked:
  assumes "d ''name'' = Some n" and "truthy n"
    and "d ''description'' = Some ds" and "truthy ds"
    and "d ''price'' = Some pv" and "Decimal_new pv = Inr dc" and "dec_lt_zero dc = Inr False"
    and "d ''category'' = Some cn" and "getattr_Category other cn = Inr c"
  shows "deserialize other self (ADict (d(''available'' \<mapsto> v))) =
           (None, self\<lparr>name := n, description := ds, price := VDec dc, available := v,
                        category := c\<rparr>)"
proof -
  let ?d = "d(''available'' \<mapsto> v)"
  have "try_body other self ?d =
      (None, self\<lparr>name := n, description := ds, price := VDec dc, available := v, category := c\<rparr>)"
    by (rule try_body_all_present [OF _ _ _ _ _ assms(6,9)]) (simp_all add: assms)
  then show ?thesis
    using assms(2,4,7) by (simp add: deserialize_def)
qed

theorem deserialize_available_unchecked_witness:
  "deserialize Map.empty wrench (ADict (hat_data(''available'' \<mapsto> VStr ''maybe''))) =
     (None, \<lparr>id_attr = Some 3, name = VStr ''Hat'', description = VStr ''A red hat'',
             price = VDec (Fin False 1250 (- 2)), available = VStr ''maybe'',
             category = VCat CLOTHS\<rparr>)
   \<and> deserialize Map.empty wrench (ADict (hat_data(''available'' \<mapsto> VInt 0))) =
     (None, \<lparr>id_attr = Some 3, name = VStr ''Hat'', description = VStr ''A red hat'',
             price = VDec (Fin False 1250 (- 2)), available = VInt 0,
             category = VCat CLOTHS\<rparr>)"
proof -
  have h: "hat_data ''name'' = Some (VStr ''Hat'')" "truthy (VStr ''Hat'')"
    "hat_data ''description'' = Some (VStr ''A red hat'')" "truthy (VStr ''A red hat'')"
    "hat_data ''price'' = Some (VStr ''12.50'')"
    by (simp_all add: hat_data_def)
  have p: "Decimal_new (VStr ''12.50'') = Inr (Fin False 1250 (- 2))"
    "dec_lt_zero (Fin False 1250 (- 2)) = Inr False"
    by (simp_all add: Decimal_of_str_12_50)
  have c: "hat_data ''category'' = Some (VStr ''CLOTHS'')"
    "getattr_Category Map.empty (VStr ''CLOTHS'') = Inr (VCat CLOTHS)"
    by (simp_all add: hat_data_def getattr_Category_def Category_member_CLOTHS)
  show ?thesis
    using deserialize_available_unchecked [OF h p c, of wrench "VStr ''maybe''"]
      deserialize_available_unchecked [OF h p c, of wrench "VInt 0"]
    by (simp add: wrench_def)
qed

text \<open>
  C10. \<^verbatim>\<open>deserialize\<close> is not atomic on the receiver. When all five entries are read and
  assigned (the price converts, the category resolves) and one of the later checks fails
  (name or description false, for instance empty, or the price below 0), a
  \<^verbatim>\<open>DataValidationError\<close> is raised and the receiver holds the five values taken from
  the dictionary, not the values it had before.
\<close>

theorem deserialize_not_atomic:
  assumes "d ''name'' = Some n" and "d ''description'' = Some ds"
    and "d ''price'' = Some pv" and "Decimal_new pv = Inr dc"
    and "d ''available'' = Some a"
    and "d ''category'' = Some cn" and "getattr_Category other cn = Inr c"
    and "\<not> truthy n \<or> \<not> truthy ds \<or> dec_lt_zero dc = Inr True"
  shows "\<exists>m. deserialize other self (ADict d) =
           (Some (DataValidationError m),
            self\<lparr>name := n, description := ds, price := VDec dc, available := a,
                     category := c\<rparr>)"
proof -
  have "try_body other self d =
      (None, self\<lparr>name := n, description := ds, price := VDec dc, available := a, category := c\<rparr>)"
    by (rule try_body_all_present [OF assms(1,2,3,5,6,4,7)])
  then show ?thesis
    using assms(8) by (auto simp add: deserialize_def)
qed

lemma Decimal_of_str_minus_5: "Decimal_of_str ''-5.00'' = Some (Fin True 500 (- 2))"
  by code_simp

theorem deserialize_not_atomic_witness:
  "(\<exists>m. deserialize Map.empty wrench (ADict (hat_data(''price'' \<mapsto> VStr ''-5.00''))) =
      (Some (DataValidationError m),
       \<lparr>id_attr = Some 3, name = VStr ''Hat'', description = VStr ''A red hat'',
         price = VDec (Fin True 500 (- 2)), available = VBool True, category = VCat CLOTHS\<rparr>))
   \<and> (\<exists>m. deserialize Map.empty wrench (ADict (hat_data(''name'' \<mapsto> VStr ''''))) =
      (Some (DataValidationError m),
       \<lparr>id_attr = Some 3, name = VStr '''', description = VStr ''A red hat'',
         price = VDec (Fin False 1250 (- 2)), available = VBool True, category = VCat CLOTHS\<rparr>))"
proof -
  let ?d = "hat_data(''price'' \<mapsto> VStr ''-5.00'')"
  let ?e = "hat_data(''name'' \<mapsto> VStr '''')"
  have c: "getattr_Category Map.empty (VStr ''CLOTHS'') = Inr (VCat CLOTHS)"
    by (simp add: getattr_Category_def Category_member_CLOTHS)
  have d: "?d ''name'' = Some (VStr ''Hat'')" "?d ''description'' = Some (VStr ''A red hat'')"
    "?d ''price'' = Some (VStr ''-5.00'')"
    "Decimal_new (VStr ''-5.00'') = Inr (Fin True 500 (- 2))"
    "?d ''available'' = Some (VBool True)" "?d ''category'' = Some (VStr ''CLOTHS'')"
    by (simp_all add: hat_data_def Decimal_of_str_minus_5)
  have dn: "\<not> truthy (VStr ''Hat'') \<or> \<not> truthy (VStr ''A red hat'')
             \<or> dec_lt_zero (Fin True 500 (- 2)) = Inr True"
    by simp
  have e: "?e ''name'' = Some (VStr '''')" "?e ''description'' = Some (VStr ''A red hat'')"
    "?e ''price'' = Some (VStr ''12.50'')"
    "Decimal_new (VStr ''12.50'') = Inr (Fin False 1250 (- 2))"
    "?e ''available'' = Some (VBool True)" "?e ''category'' = Some (VStr ''CLOTHS'')"
    by (simp_all add: hat_data_def Decimal_of_str_12_50)
  have en: "\<not> truthy (VStr '''') \<or> \<not> truthy (VStr ''A red hat'')
             \<or> dec_lt_zero (Fin False 1250 (- 2)) = Inr True"
    by simp
  show ?thesis
    using deserialize_not_atomic [OF d c dn, of wrench]
      deserialize_not_atomic [OF e c en, of wrench]
    by (simp add: wrench_def fun_upd_def)
qed

section \<open>Missing keys\<close>










section \<open>Lifecycle operations on the store\<close>

lemma id_truthy_Some: "id_truthy x \<Longrightarrow> \<exists>i. x = Some i \<and> i \<noteq> 0"
  by (cases x) simp_all



text \<open>
  C7. \<^verbatim>\<open>delete()\<close> raises a \<^verbatim>\<open>DataValidationError\<close> and leaves the store as it was
  when the instance's id is empty, and also when the id is not empty but no row has it.
  When a row has the id, \<^verbatim>\<open>delete()\<close> returns normally, \<^verbatim>\<open>find\<close> of that id then
  gives nothing, and the other rows are unchanged.
\<close>

theorem delete_invalid_id_or_remove:
  "(\<not> id_truthy (id_attr p) \<longrightarrow>
      delete p st = (Some (DataValidationError ''Delete called with empty ID field''), st))
   \<and> (id_truthy (id_attr p) \<and> query_get st (id_attr p) = None \<longrightarrow>
        delete p st =
          (Some (DataValidationError ''Attempt to delete a Product that does not exist''), st))
   \<and> (id_truthy (id_attr p) \<and> query_get st (id_attr p) \<noteq> None \<longrightarrow>
        (\<exists>i. id_attr p = Some i \<and> fst (delete p st) = None
             \<and> find (snd (delete p st)) i = None
             \<and> (\<forall>j. j \<noteq> i \<longrightarrow> find (snd (delete p st)) j = find st j)))"
proof (intro conjI impI)
  assume "\<not> id_truthy (id_attr p)"
  then show "delete p st = (Some (DataValidationError ''Delete called with empty ID field''), st)"
    by (simp add: delete_def)
next
  assume "id_truthy (id_attr p) \<and> query_get st (id_attr p) = None"
  then show "delete p st =
          (Some (DataValidationError ''Attempt to delete a Product that does not exist''), st)"
    by (simp add: delete_def)
next
  assume a: "id_truthy (id_attr p) \<and> query_get st (id_attr p) \<noteq> None"
  then obtain i where i: "id_attr p = Some i"
    using id_truthy_Some by blast
  with a have "delete p st = (None, st\<lparr>rows := (rows st)(i := None)\<rparr>)"
    by (auto simp: delete_def)
  then have "fst (delete p st) = None \<and> find (snd (delete p st)) i = None
             \<and> (\<forall>j. j \<noteq> i \<longrightarrow> find (snd (delete p st)) j = find st j)"
    by (simp add: find_def)
  with i show "\<exists>i. id_attr p = Some i \<and> fst (delete p st) = None
             \<and> find (snd (delete p st)) i = None
             \<and> (\<forall>j. j \<noteq> i \<longrightarrow> find (snd (delete p st)) j = find st j)"
    by blast
qed

theorem delete_invalid_id_or_remove_witness:
  "delete (wrench\<lparr>id_attr := None\<rparr>) shop =
     (Some (DataValidationError ''Delete called with empty ID field''), shop)
   \<and> delete hat shop =
     (Some (DataValidationError ''Attempt to delete a Product that does not exist''), shop)
   \<and> find shop 3 = Some wrench
   \<and> fst (delete wrench shop) = None \<and> find (snd (delete wrench shop)) 3 = None"
proof -
  have 1: "\<not> id_truthy (id_attr (wrench\<lparr>id_attr := None\<rparr>))"
    by simp
  have 2: "id_truthy (id_attr hat) \<and> query_get shop (id_attr hat) = None"
    by (simp add: hat_def shop_def)
  have 3: "id_truthy (id_attr wrench) \<and> query_get shop (id_attr wrench) \<noteq> None"
    "id_attr wrench = Some 3" "find shop 3 = Some wrench"
    by (simp_all add: wrench_def shop_def find_def)
  show ?thesis
    using delete_invalid_id_or_remove [of "wrench\<lparr>id_attr := None\<rparr>" shop]
      delete_invalid_id_or_remove [of hat shop]
      delete_invalid_id_or_remove [of wrench shop] 1 2 3
    by auto
qed





section \<open>Bootstrap\<close>

text \<open>
  C8. If the initialisation of the database raises an exception, with text \<open>msg\<close>, the
  bootstrap writes, after the banner, one record of level CRITICAL whose text starts with
  \<open>msg\<close>, and ends the process with exit status 4, which is neither 0 nor 1. If the
  initialisation returns, the bootstrap logs that the service is initialised and does not
  exit.
\<close>

theorem bootstrap_exit_status:
  "bootstrap (Inl (Exception msg)) =
     (banner @ [(CRITICAL, msg @ '': Cannot continue'')], Exit 4)
   \<and> Exit 4 \<noteq> Exit 0 \<and> Exit 4 \<noteq> Exit 1
   \<and> bootstrap (Inr u) = (banner @ [(INFO, ''Service initialized!'')], Initialized)
   \<and> snd (bootstrap (Inr u)) \<noteq> Exit c"
  by (simp add: bootstrap_def)

text \<open>The three lines of the banner, as the logger receives them.\<close>

lemma banner_text:
  "map snd banner =
     [''**********************************************************************'',
      ''**************  P E T   S E R V I C E   R U N N I N G  ***************'',
      ''**********************************************************************'']"
  by (simp add: banner_def) code_simp

end
